theory Spec2Isabelle
  imports Main "HOL-Library.Word"
begin

section \<open>Strings and identifiers\<close>

text \<open>
  A JavaScript string is a sequence of UTF-16 code units. Competency ids travel as JSON
  numbers that may be \<open>null\<close>: \<open>None\<close> stands for \<open>null\<close>.
\<close>

type_synonym jsstring = "16 word list"

type_synonym nullable_id = "int option"

text \<open>
  \<open>String.prototype.trim\<close> strips white space and line terminators from both ends.
  \<open>is_whitespace\<close> lists the code units ECMAScript counts as such.
\<close>

definition is_whitespace :: "16 word \<Rightarrow> bool" where
  "is_whitespace c \<longleftrightarrow>
     c \<in> set [0x0009, 0x000A, 0x000B, 0x000C, 0x000D, 0x0020, 0x00A0, 0x1680,
              0x2000, 0x2001, 0x2002, 0x2003, 0x2004, 0x2005, 0x2006, 0x2007,
              0x2008, 0x2009, 0x200A, 0x2028, 0x2029, 0x202F, 0x205F, 0x3000, 0xFEFF]"

definition trim :: "jsstring \<Rightarrow> jsstring" where
  "trim s = rev (dropWhile is_whitespace (rev (dropWhile is_whitespace s)))"

section \<open>The presentation layer: \<open>DailyThought.tsx\<close> and \<open>thoughts/page.tsx\<close>\<close>

record Thought =
  thought_id :: int
  thought_text :: jsstring
  thought_time :: jsstring
  thought_competencies :: "nullable_id list"

record Competency =
  comp_id :: int
  comp_skill :: jsstring
  comp_description :: jsstring

text \<open>
  A row of the \<open>GET /api/entry\<close> answer as it arrives: the \<open>competencies\<close> field may be
  \<open>null\<close> or absent (\<open>None\<close>), and its elements may be \<open>null\<close>.
\<close>

record EntryFromDB =
  row_id :: int
  row_text :: jsstring
  row_createdAt :: jsstring
  row_competencies :: "nullable_id list option"

text \<open>The \<open>useState\<close> cells of the \<open>DailyThought\<close> component (the compact widget).\<close>

record DailyThought_state =
  input :: jsstring
  thoughts :: "Thought list"
  competencies :: "Competency list"
  selected :: "nullable_id list"
  editingId :: "int option"

text \<open>The \<open>useState\<close> cells of the \<open>Thoughts\<close> component (the page \<open>/thoughts\<close>).\<close>

record Thoughts_state =
  page_thoughts :: "Thought list"
  page_competencies :: "Competency list"

subsection \<open>What \<open>fetch\<close> sends and receives\<close>

datatype request =
    Fetch_PUT int jsstring "nullable_id list"   \<comment> \<open>\<open>PUT /api/entry/${editingId}\<close>, \<open>{text, competencyIDs}\<close>\<close>
  | Fetch_POST jsstring "nullable_id list"      \<comment> \<open>\<open>POST api/entry\<close>, \<open>{text, competencyIDs}\<close>\<close>
  | Fetch_DELETE int                            \<comment> \<open>\<open>DELETE /api/entry/${id}\<close>\<close>

text \<open>The JSON object \<open>newThought\<close> that \<open>handleSave\<close> reads from the answer to a POST.\<close>

record NewThought =
  new_id :: int
  new_text :: jsstring
  new_createdAt :: jsstring
  new_competencies :: "nullable_id list"

record response =
  ok :: bool
  json :: NewThought

text \<open>The answer to \<open>fetch("/api/entry")\<close>: \<open>res.ok\<close> and the parsed array of rows.\<close>

record list_response =
  list_ok :: bool
  list_json :: "EntryFromDB list"

text \<open>
  An event handler runs against the server through \<open>fetch\<close>, a parameter of the model:
  it maps a request to the answer, \<open>None\<close> when the promise rejects (then the handler's own
  promise rejects and no state is set). A handler returns the new state, the requests it
  issued and the \<open>alert\<close> boxes it opened.
\<close>

type_synonym 'st outcome = "'st \<times> request list \<times> string list"

subsection \<open>\<open>loadThoughts\<close>\<close>

text \<open>
  \<open>new Date(row.createdAt).toLocaleString("en-US", ...)\<close> is the parameter
  \<open>toLocaleString\<close>. In
  \<open>(row.competencies && row.competencies.filter((c) => c !== null)) || []\<close>
  a \<open>null\<close> or absent field is falsy and gives \<open>[]\<close>; an array is truthy, and so is the
  filtered array, which is then the value.
\<close>

definition loadThoughts ::
  "(jsstring \<Rightarrow> jsstring) \<Rightarrow> list_response \<Rightarrow> DailyThought_state \<Rightarrow> DailyThought_state" where
  "loadThoughts toLocaleString res st =
     (if \<not> list_ok res then st
      else st\<lparr>thoughts :=
             map (\<lambda>row. \<lparr>thought_id = row_id row,
                         thought_text = row_text row,
                         thought_time = toLocaleString (row_createdAt row),
                         thought_competencies =
                           (case row_competencies row of
                              None \<Rightarrow> []
                            | Some cs \<Rightarrow> filter (\<lambda>c. c \<noteq> None) cs)\<rparr>)
                 (list_json res)\<rparr>)"

text \<open>The same function as \<open>thoughts/page.tsx\<close> has it.\<close>

definition page_loadThoughts ::
  "(jsstring \<Rightarrow> jsstring) \<Rightarrow> list_response \<Rightarrow> Thoughts_state \<Rightarrow> Thoughts_state" where
  "page_loadThoughts toLocaleString res st =
     (if \<not> list_ok res then st
      else st\<lparr>page_thoughts :=
             map (\<lambda>row. \<lparr>thought_id = row_id row,
                         thought_text = row_text row,
                         thought_time = toLocaleString (row_createdAt row),
                         thought_competencies =
                           (case row_competencies row of
                              None \<Rightarrow> []
                            | Some cs \<Rightarrow> filter (\<lambda>c. c \<noteq> None) cs)\<rparr>)
                 (list_json res)\<rparr>)"

subsection \<open>The composer: \<open>handleSave\<close>, \<open>toggleCompetency\<close>, \<open>handleDelete\<close>, \<open>handleEdit\<close>, \<open>handleCancel\<close>\<close>

definition handleSave ::
  "(request \<Rightarrow> response option) \<Rightarrow> (jsstring \<Rightarrow> jsstring) \<Rightarrow> DailyThought_state
     \<Rightarrow> DailyThought_state outcome" where
  "handleSave fetch toLocaleString st =
     (if trim (input st) = [] then (st, [], [])
      else case editingId st of
        Some eid \<Rightarrow>
          (let req = Fetch_PUT eid (input st) (selected st) in
           case fetch req of
             None \<Rightarrow> (st, [req], [])
           | Some res \<Rightarrow>
               if \<not> ok res then (st, [req], [''Failed to update entry.''])
               else
                 (st\<lparr>thoughts :=
                       map (\<lambda>t. if thought_id t = eid
                                then t\<lparr>thought_text := input st,
                                       thought_competencies := selected st\<rparr>
                                else t)
                           (thoughts st),
                     input := [], selected := [], editingId := None\<rparr>,
                  [req], []))
      | None \<Rightarrow>
          (let req = Fetch_POST (input st) (selected st) in
           case fetch req of
             None \<Rightarrow> (st, [req], [])
           | Some res \<Rightarrow>
               if \<not> ok res then (st, [req], [''Failed to save entry.''])
               else
                 (let newThought = json res;
                      formattedThought =
                        \<lparr>thought_id = new_id newThought,
                         thought_text = new_text newThought,
                         thought_time = toLocaleString (new_createdAt newThought),
                         thought_competencies = new_competencies newThought\<rparr>
                  in (st\<lparr>thoughts := formattedThought # thoughts st,
                         input := [], selected := []\<rparr>,
                      [req], []))))"

text \<open>
  \<open>toggleCompetency(id)\<close> calls \<open>setSelected\<close> with an updater of the previous array:
  \<open>prev.includes(id) ? prev.filter((c) => c !== id) : [...prev, id]\<close>.
\<close>

definition toggleCompetency :: "int \<Rightarrow> DailyThought_state \<Rightarrow> DailyThought_state" where
  "toggleCompetency i st =
     st\<lparr>selected :=
          (let prev = selected st
           in if Some i \<in> set prev then filter (\<lambda>c. c \<noteq> Some i) prev else prev @ [Some i])\<rparr>"

definition handleDelete ::
  "(request \<Rightarrow> response option) \<Rightarrow> int \<Rightarrow> DailyThought_state \<Rightarrow> DailyThought_state outcome" where
  "handleDelete fetch i st =
     (let req = Fetch_DELETE i in
      case fetch req of
        None \<Rightarrow> (st, [req], [])
      | Some res \<Rightarrow>
          if \<not> ok res then (st, [req], [''Failed to delete''])
          else (st\<lparr>thoughts := filter (\<lambda>t. thought_id t \<noteq> i) (thoughts st)\<rparr>, [req], []))"

definition handleEdit :: "Thought \<Rightarrow> DailyThought_state \<Rightarrow> DailyThought_state" where
  "handleEdit thought st =
     st\<lparr>input := thought_text thought,
        selected := thought_competencies thought,
        editingId := Some (thought_id thought)\<rparr>"

definition handleCancel :: "DailyThought_state \<Rightarrow> DailyThought_state" where
  "handleCancel st = st\<lparr>input := [], selected := [], editingId := None\<rparr>"

subsection \<open>What the two components render\<close>

text \<open>
  The list of thoughts as the JSX builds it. A competency is shown by
  \<open>competencies.find((c) => c.id === id)?.skill || `#${id}`\<close>: the skill when an entry of
  the catalog has the id and its skill is not the empty string, and otherwise the text
  \<open>#\<close> followed by the id, for which \<open>Hash\<close> stands. The paragraph of competencies is
  there only when \<open>thought.competencies.length > 0\<close>; the widget joins its labels with
  commas and the page shows one badge per label, which is the list of labels in both cases.
\<close>

datatype label = Skill jsstring | Hash nullable_id

record card =
  card_key :: int
  card_text :: jsstring
  card_time :: jsstring
  card_competencies :: "label list option"

datatype rendering = Placeholder string | Cards "card list"

definition skill_label :: "Competency list \<Rightarrow> nullable_id \<Rightarrow> label" where
  "skill_label comps i =
     (case find (\<lambda>c. Some (comp_id c) = i) comps of
        None \<Rightarrow> Hash i
      | Some c \<Rightarrow> if comp_skill c = [] then Hash i else Skill (comp_skill c))"

definition render_card :: "Competency list \<Rightarrow> Thought \<Rightarrow> card" where
  "render_card comps thought =
     \<lparr>card_key = thought_id thought,
      card_text = thought_text thought,
      card_time = thought_time thought,
      card_competencies =
        (if length (thought_competencies thought) > 0
         then Some (map (skill_label comps) (thought_competencies thought))
         else None)\<rparr>"

text \<open>The widget: \<open>thoughts.slice(0, 5).map(...)\<close>, or the paragraph when there is none.\<close>

definition DailyThought_render :: "DailyThought_state \<Rightarrow> rendering" where
  "DailyThought_render st =
     (if length (thoughts st) = 0 then Placeholder ''No thoughts yet. Start typing!''
      else Cards (map (render_card (competencies st)) (take 5 (thoughts st))))"

text \<open>The page: \<open>thoughts.map(...)\<close>, every thought.\<close>

definition Thoughts_render :: "Thoughts_state \<Rightarrow> rendering" where
  "Thoughts_render st =
     (if length (page_thoughts st) = 0 then Placeholder ''No thoughts yet. Start typing!''
      else Cards (map (render_card (page_competencies st)) (page_thoughts st)))"

section \<open>The entry API: \<open>PUT\<close> and \<open>DELETE\<close> on \<open>/api/entry/{id}\<close>\<close>

subsection \<open>The store behind \<open>connection\<close>\<close>

text \<open>
  The two tables the statements of the handlers name: \<open>Entry\<close> with the columns
  \<open>id\<close>, \<open>text\<close>, \<open>user\<close> (and \<open>createdAt\<close>, which the list of entries returns), and
  \<open>EntryCompetency\<close> with the columns \<open>entryID\<close>, \<open>competencyID\<close>. A table is the list
  of its rows; no key constraint is built in. The connection also keeps the statements it
  was handed, in order.
\<close>

record Entry =
  entry_id :: int
  entry_text :: jsstring
  entry_createdAt :: jsstring
  entry_user :: jsstring

datatype statement =
    UPDATE_Entry jsstring int jsstring
      \<comment> \<open>\<open>UPDATE Entry SET text = ? WHERE id = ? AND user = ?\<close>\<close>
  | DELETE_EntryCompetency int
      \<comment> \<open>\<open>DELETE FROM EntryCompetency WHERE entryID = ?\<close>\<close>
  | DELETE_Entry int jsstring
      \<comment> \<open>\<open>DELETE FROM Entry WHERE id = ? AND user = ?\<close>\<close>
  | INSERT_EntryCompetency int int
      \<comment> \<open>\<open>INSERT INTO EntryCompetency (entryID, competencyID) VALUES (?, ?)\<close>\<close>
  | INSERT_Entry Entry
      \<comment> \<open>the insertion of one \<open>Entry\<close> row (used by the creation of an entry only)\<close>

record connection =
  Entry_table :: "Entry list"
  EntryCompetency_table :: "(int \<times> int) list"
  statements :: "statement list"

text \<open>
  The path parameter \<open>params.id\<close> is handed to the database as it is; the model takes the
  number it denotes. \<open>affectedRows\<close> is the number of rows the \<open>WHERE\<close> clause matches
  (the driver reports found rows for an UPDATE, also when the new text equals the old one).
\<close>

fun affectedRows :: "statement \<Rightarrow> connection \<Rightarrow> nat" where
  "affectedRows (UPDATE_Entry t i u) c =
     length (filter (\<lambda>e. entry_id e = i \<and> entry_user e = u) (Entry_table c))"
| "affectedRows (DELETE_EntryCompetency i) c =
     length (filter (\<lambda>r. fst r = i) (EntryCompetency_table c))"
| "affectedRows (DELETE_Entry i u) c =
     length (filter (\<lambda>e. entry_id e = i \<and> entry_user e = u) (Entry_table c))"
| "affectedRows (INSERT_EntryCompetency i k) c = 1"
| "affectedRows (INSERT_Entry e) c = 1"

fun apply_statement :: "statement \<Rightarrow> connection \<Rightarrow> connection" where
  "apply_statement (UPDATE_Entry t i u) c =
     c\<lparr>Entry_table :=
         map (\<lambda>e. if entry_id e = i \<and> entry_user e = u then e\<lparr>entry_text := t\<rparr> else e)
             (Entry_table c)\<rparr>"
| "apply_statement (DELETE_EntryCompetency i) c =
     c\<lparr>EntryCompetency_table := filter (\<lambda>r. fst r \<noteq> i) (EntryCompetency_table c)\<rparr>"
| "apply_statement (DELETE_Entry i u) c =
     c\<lparr>Entry_table := filter (\<lambda>e. \<not> (entry_id e = i \<and> entry_user e = u)) (Entry_table c)\<rparr>"
| "apply_statement (INSERT_EntryCompetency i k) c =
     c\<lparr>EntryCompetency_table := EntryCompetency_table c @ [(i, k)]\<rparr>"
| "apply_statement (INSERT_Entry e) c =
     c\<lparr>Entry_table := Entry_table c @ [e]\<rparr>"

text \<open>
  What a handler's \<open>try\<close> block can throw: \<open>req.json()\<close> rejects on a body that is not
  JSON (a SyntaxError), the destructuring \<open>const { text, competencyIDs } = ...\<close> of a
  parsed \<open>null\<close> throws a TypeError, and \<open>connection.execute\<close> rejects when the database
  refuses the statement (a constraint, a lost connection). Which statements are refused is
  the parameter \<open>rejects\<close>; a refused statement changes no table.
\<close>

datatype thrown = SyntaxError | TypeError | QueryError

type_synonym rejection = "statement \<Rightarrow> connection \<Rightarrow> bool"

definition execute ::
  "rejection \<Rightarrow> statement \<Rightarrow> connection \<Rightarrow> (thrown + nat) \<times> connection" where
  "execute rejects q c =
     (let c' = c\<lparr>statements := statements c @ [q]\<rparr>
      in if rejects q c then (Inl QueryError, c')
         else (Inr (affectedRows q c), apply_statement q c'))"

subsection \<open>The session\<close>

text \<open>
  \<open>getServerSession\<close> answers \<open>null\<close> or a session whose \<open>user\<close> and whose \<open>email\<close> may
  be missing. The guard of both handlers is \<open>!session || !session.user?.email\<close>; the
  empty string is falsy too. \<open>session_email\<close> is the \<open>userEmail\<close> of a request that
  passes the guard.
\<close>

record user =
  email :: "jsstring option"

record session =
  session_user :: "user option"

definition session_email :: "session option \<Rightarrow> jsstring option" where
  "session_email s =
     (case s of
        None \<Rightarrow> None
      | Some se \<Rightarrow>
          (case session_user se of
             None \<Rightarrow> None
           | Some u \<Rightarrow>
               (case email u of
                  None \<Rightarrow> None
                | Some e \<Rightarrow> if e = [] then None else Some e)))"

subsection \<open>The handlers\<close>

datatype reply = Message string | Error string | Created NewThought

record http_response =
  status :: nat
  body :: reply

text \<open>
  What \<open>const { text, competencyIDs } = await req.json()\<close> binds when the body is an object
  \<open>{text, competencyIDs}\<close>. A handler takes an \<open>entry_body option\<close>: \<open>None\<close> when that
  statement throws, which it does before any database statement, on a body that is not JSON
  and on the JSON body \<open>null\<close>.
\<close>

record entry_body =
  body_text :: jsstring
  body_competencyIDs :: "int list"

definition DELETE ::
  "rejection \<Rightarrow> session option \<Rightarrow> int \<Rightarrow> connection \<Rightarrow> http_response \<times> connection" where
  "DELETE rejects s entryId c =
     (case session_email s of
        None \<Rightarrow> (\<lparr>status = 401, body = Error ''Not Authenticated''\<rparr>, c)
      | Some userEmail \<Rightarrow>
          (case execute rejects (DELETE_EntryCompetency entryId) c of
             (Inl err, c1) \<Rightarrow> (\<lparr>status = 500, body = Error ''Failed''\<rparr>, c1)
           | (Inr _, c1) \<Rightarrow>
               (case execute rejects (DELETE_Entry entryId userEmail) c1 of
                  (Inl err, c2) \<Rightarrow> (\<lparr>status = 500, body = Error ''Failed''\<rparr>, c2)
                | (Inr result, c2) \<Rightarrow>
                    if result = 0 then (\<lparr>status = 404, body = Error ''Not found''\<rparr>, c2)
                    else (\<lparr>status = 200, body = Message ''Deleted''\<rparr>, c2))))"

text \<open>The loop \<open>for (const compID of competencyIDs)\<close>: it stops at the first rejection.\<close>

fun insert_competencies ::
  "rejection \<Rightarrow> int \<Rightarrow> int list \<Rightarrow> connection \<Rightarrow> (thrown + unit) \<times> connection" where
  "insert_competencies rejects entryId [] c = (Inr (), c)"
| "insert_competencies rejects entryId (compID # rest) c =
     (case execute rejects (INSERT_EntryCompetency entryId compID) c of
        (Inl err, c') \<Rightarrow> (Inl err, c')
      | (Inr _, c') \<Rightarrow> insert_competencies rejects entryId rest c')"

definition PUT ::
  "rejection \<Rightarrow> session option \<Rightarrow> int \<Rightarrow> entry_body option \<Rightarrow> connection
     \<Rightarrow> http_response \<times> connection" where
  "PUT rejects s entryId req_json c =
     (case session_email s of
        None \<Rightarrow> (\<lparr>status = 401, body = Error ''Not Authenticated''\<rparr>, c)
      | Some userEmail \<Rightarrow>
          (case req_json of
             None \<Rightarrow> (\<lparr>status = 500, body = Error ''Failed''\<rparr>, c)
           | Some b \<Rightarrow>
               (case execute rejects (UPDATE_Entry (body_text b) entryId userEmail) c of
                  (Inl err, c1) \<Rightarrow> (\<lparr>status = 500, body = Error ''Failed''\<rparr>, c1)
                | (Inr result, c1) \<Rightarrow>
                    if result = 0 then (\<lparr>status = 404, body = Error ''Not found''\<rparr>, c1)
                    else
                      (case execute rejects (DELETE_EntryCompetency entryId) c1 of
                         (Inl err, c2) \<Rightarrow> (\<lparr>status = 500, body = Error ''Failed''\<rparr>, c2)
                       | (Inr _, c2) \<Rightarrow>
                           (case insert_competencies rejects entryId (body_competencyIDs b) c2 of
                              (Inl err, c3) \<Rightarrow> (\<lparr>status = 500, body = Error ''Failed''\<rparr>, c3)
                            | (Inr _, c3) \<Rightarrow>
                                (\<lparr>status = 200, body = Message ''Updated''\<rparr>, c3))))))"

subsection \<open>The routes of \<open>/api/entry\<close>\<close>

text \<open>
  Modelled from the spec: the handlers of \<open>GET /api/entry\<close> and \<open>POST /api/entry\<close>
  (the route file of \<open>/api/entry\<close>) are not among the sources. The spec, sections 4.1 and
  6: the list gives all entries belonging to the caller, each with its associated
  competency id list, as \<open>{id, text, createdAt, competencies}\<close>.
\<close>

definition GET :: "jsstring \<Rightarrow> connection \<Rightarrow> EntryFromDB list" where
  "GET userEmail c =
     map (\<lambda>e. \<lparr>row_id = entry_id e,
               row_text = entry_text e,
               row_createdAt = entry_createdAt e,
               row_competencies =
                 Some (map (\<lambda>r. Some (snd r))
                           (filter (\<lambda>r. fst r = entry_id e) (EntryCompetency_table c)))\<rparr>)
         (filter (\<lambda>e. entry_user e = userEmail) (Entry_table c))"

text \<open>
  Modelled from the spec: the handler of \<open>POST /api/entry\<close>. The spec, sections 4.2, 6
  and 7: no valid session gives 401; otherwise insert one \<open>Entry\<close> row owned by the
  caller, then one association row per selected competency id, and answer 200 with the
  created entry including its generated id and timestamp; any persistence error gives the
  generic failure. The id and the timestamp the store generates are the parameters
  \<open>insertId\<close> and \<open>now\<close>.
\<close>

definition POST ::
  "rejection \<Rightarrow> int \<Rightarrow> jsstring \<Rightarrow> session option \<Rightarrow> entry_body option \<Rightarrow> connection
     \<Rightarrow> http_response \<times> connection" where
  "POST rejects insertId now s req_json c =
     (case session_email s of
        None \<Rightarrow> (\<lparr>status = 401, body = Error ''Not Authenticated''\<rparr>, c)
      | Some userEmail \<Rightarrow>
          (case req_json of
             None \<Rightarrow> (\<lparr>status = 500, body = Error ''Failed''\<rparr>, c)
           | Some b \<Rightarrow>
               (case execute rejects
                       (INSERT_Entry \<lparr>entry_id = insertId, entry_text = body_text b,
                                      entry_createdAt = now, entry_user = userEmail\<rparr>) c of
                  (Inl err, c1) \<Rightarrow> (\<lparr>status = 500, body = Error ''Failed''\<rparr>, c1)
                | (Inr _, c1) \<Rightarrow>
                    (case insert_competencies rejects insertId (body_competencyIDs b) c1 of
                       (Inl err, c2) \<Rightarrow> (\<lparr>status = 500, body = Error ''Failed''\<rparr>, c2)
                     | (Inr _, c2) \<Rightarrow>
                         (\<lparr>status = 200,
                           body = Created \<lparr>new_id = insertId, new_text = body_text b,
                                           new_createdAt = now,
                                           new_competencies = map Some (body_competencyIDs b)\<rparr>\<rparr>,
                          c2)))))"

section \<open>Sample data\<close>

text \<open>
  A database that executes every statement, one that refuses every statement, two users
  (\<open>a@x\<close> and \<open>b@x\<close>), a store with one entry each, a widget and an answer of the list
  route: the concrete inputs on which the theorems below are run.
\<close>

definition never_rejects :: rejection where
  "never_rejects q c = False"

definition always_rejects :: rejection where
  "always_rejects q c = True"

definition session_of :: "jsstring \<Rightarrow> session option" where
  "session_of e = Some \<lparr>session_user = Some \<lparr>email = Some e\<rparr>\<rparr>"

definition ann :: jsstring where "ann = [0x61, 0x40, 0x78]"

definition bob :: jsstring where "bob = [0x62, 0x40, 0x78]"

definition example_store :: connection where
  "example_store =
     \<lparr>Entry_table =
        [\<lparr>entry_id = 7, entry_text = [0x68, 0x69], entry_createdAt = [], entry_user = ann\<rparr>,
         \<lparr>entry_id = 8, entry_text = [0x79, 0x6F], entry_createdAt = [], entry_user = bob\<rparr>],
      EntryCompetency_table = [(7, 1), (7, 2), (8, 5)],
      statements = []\<rparr>"

definition blank_thought :: "int \<Rightarrow> Thought" where
  "blank_thought k = \<lparr>thought_id = k, thought_text = [], thought_time = [], thought_competencies = []\<rparr>"

definition example_widget :: DailyThought_state where
  "example_widget =
     \<lparr>input = [0x20, 0x09, 0x0A],
      thoughts = map blank_thought [9, 4, 7, 1, 8, 3],
      competencies = [],
      selected = [Some 1, Some 3],
      editingId = None\<rparr>"

definition example_rows :: list_response where
  "example_rows =
     \<lparr>list_ok = True,
      list_json =
        [\<lparr>row_id = 7, row_text = [0x68, 0x69], row_createdAt = [],
          row_competencies = Some [Some 1, None, Some 3]\<rparr>,
         \<lparr>row_id = 8, row_text = [0x79, 0x6F], row_createdAt = [],
          row_competencies = None\<rparr>]\<rparr>"

section \<open>Facts about the store and the handlers\<close>

text \<open>What \<open>execute\<close> returns, read backwards from its result.\<close>

lemma execute_accepted:
  "execute rejects q c = (Inr n, c') \<longleftrightarrow>
     \<not> rejects q c \<and> n = affectedRows q c
     \<and> c' = apply_statement q (c\<lparr>statements := statements c @ [q]\<rparr>)"
  by (auto simp: execute_def Let_def)

lemma execute_rejected:
  "execute rejects q c = (Inl err, c') \<longleftrightarrow>
     rejects q c \<and> err = QueryError \<and> c' = c\<lparr>statements := statements c @ [q]\<rparr>"
  by (auto simp: execute_def Let_def)

text \<open>
  When the loop of insertions completes, it has appended one row per element, in order,
  and has touched nothing else.
\<close>

lemma insert_competencies_done:
  "insert_competencies rejects i ks c = (Inr u, c') \<Longrightarrow>
     EntryCompetency_table c' = EntryCompetency_table c @ map (Pair i) ks
     \<and> Entry_table c' = Entry_table c
     \<and> statements c' = statements c @ map (INSERT_EntryCompetency i) ks"
proof (induction ks arbitrary: c)
  case Nil
  then show ?case by simp
next
  case (Cons k ks)
  from Cons.prems obtain n c1 where
    ex: "execute rejects (INSERT_EntryCompetency i k) c = (Inr n, c1)"
    and rest: "insert_competencies rejects i ks c1 = (Inr u, c')"
    by (auto split: prod.splits sum.splits)
  from ex have c1: "c1 = apply_statement (INSERT_EntryCompetency i k)
                           (c\<lparr>statements := statements c @ [INSERT_EntryCompetency i k]\<rparr>)"
    by (simp add: execute_accepted)
  from Cons.IH [OF rest] show ?case
    by (simp add: c1)
qed

lemma insert_competencies_accepts:
  "\<forall>q c. \<not> rejects q c \<Longrightarrow> \<exists>c'. insert_competencies rejects i ks c = (Inr (), c')"
  by (induction ks arbitrary: c) (auto simp: execute_def Let_def)

text \<open>
  A PUT that answers 200 has run all three steps: the caller owns a row with the id, the
  text of the caller's rows with that id is the new one, and the association rows of the
  entry were dropped before the new ones were appended.
\<close>

lemma PUT_done:
  assumes run: "PUT rejects s entryId (Some b) c = (r, c')"
    and success: "status r = 200"
  shows "\<exists>userEmail. session_email s = Some userEmail
       \<and> (\<exists>e \<in> set (Entry_table c). entry_id e = entryId \<and> entry_user e = userEmail)
       \<and> Entry_table c'
            = map (\<lambda>e. if entry_id e = entryId \<and> entry_user e = userEmail
                        then e\<lparr>entry_text := body_text b\<rparr> else e) (Entry_table c)
       \<and> EntryCompetency_table c'
            = filter (\<lambda>r. fst r \<noteq> entryId) (EntryCompetency_table c)
              @ map (Pair entryId) (body_competencyIDs b)
       \<and> statements c' = statements c
            @ [UPDATE_Entry (body_text b) entryId userEmail, DELETE_EntryCompetency entryId]
            @ map (INSERT_EntryCompetency entryId) (body_competencyIDs b)"
proof -
  from run success obtain userEmail where auth: "session_email s = Some userEmail"
    by (auto simp: PUT_def split: option.splits)
  let ?upd = "UPDATE_Entry (body_text b) entryId userEmail"
  let ?del = "DELETE_EntryCompetency entryId"
  from run success auth obtain n c1 where
    e1: "execute rejects ?upd c = (Inr n, c1)" and n: "n \<noteq> 0"
    by (auto simp: PUT_def split: option.splits prod.splits sum.splits if_splits)
  from run success auth e1 n obtain m c2 where
    e2: "execute rejects ?del c1 = (Inr m, c2)"
    by (auto simp: PUT_def split: option.splits prod.splits sum.splits if_splits)
  from run success auth e1 n e2 obtain u where
    e3: "insert_competencies rejects entryId (body_competencyIDs b) c2 = (Inr u, c')"
    by (auto simp: PUT_def split: option.splits prod.splits sum.splits if_splits)
  from e1 have c1: "c1 = apply_statement ?upd (c\<lparr>statements := statements c @ [?upd]\<rparr>)"
    and n_def: "n = affectedRows ?upd c"
    by (simp_all add: execute_accepted)
  from e2 have c2: "c2 = apply_statement ?del (c1\<lparr>statements := statements c1 @ [?del]\<rparr>)"
    by (simp add: execute_accepted)
  note ins = insert_competencies_done [OF e3]
  have ec: "EntryCompetency_table c'
      = filter (\<lambda>r. fst r \<noteq> entryId) (EntryCompetency_table c)
        @ map (Pair entryId) (body_competencyIDs b)"
    using ins by (simp add: c1 c2)
  have et: "Entry_table c'
      = map (\<lambda>e. if entry_id e = entryId \<and> entry_user e = userEmail
                  then e\<lparr>entry_text := body_text b\<rparr> else e) (Entry_table c)"
    using ins by (simp add: c1 c2)
  have st: "statements c' = statements c @ [?upd, ?del]
      @ map (INSERT_EntryCompetency entryId) (body_competencyIDs b)"
    using ins by (simp add: c1 c2)
  from n n_def have "filter (\<lambda>e. entry_id e = entryId \<and> entry_user e = userEmail) (Entry_table c) \<noteq> []"
    by auto
  then have owned: "\<exists>e \<in> set (Entry_table c). entry_id e = entryId \<and> entry_user e = userEmail"
    by (simp add: filter_empty_conv)
  show ?thesis
    using auth owned et ec st by blast
qed

lemma updated_row_present:
  assumes e0: "e0 \<in> set rows" "entry_id e0 = i" "entry_user e0 = u"
  shows "\<exists>e \<in> set (map (\<lambda>e. if entry_id e = i \<and> entry_user e = u
                              then e\<lparr>entry_text := t\<rparr> else e) rows).
            entry_id e = i \<and> entry_user e = u \<and> entry_text e = t"
proof -
  let ?f = "\<lambda>e. if entry_id e = i \<and> entry_user e = u then e\<lparr>entry_text := t\<rparr> else e"
  have "?f e0 \<in> set (map ?f rows)"
    unfolding set_map using e0(1) by (rule imageI)
  moreover have "?f e0 = e0\<lparr>entry_text := t\<rparr>"
    using e0 by simp
  ultimately have mem: "e0\<lparr>entry_text := t\<rparr> \<in> set (map ?f rows)"
    by simp
  show ?thesis
    by (rule bexI [OF _ mem]) (simp add: e0)
qed

lemma updated_rows_text:
  assumes "e \<in> set (map (\<lambda>e. if entry_id e = i \<and> entry_user e = u
                              then e\<lparr>entry_text := t\<rparr> else e) rows)"
    and "entry_id e = i" "entry_user e = u"
  shows "entry_text e = t"
proof -
  let ?f = "\<lambda>e. if entry_id e = i \<and> entry_user e = u then e\<lparr>entry_text := t\<rparr> else e"
  from assms(1) have "e \<in> ?f ` set rows" by (simp only: set_map)
  then obtain x where "e = ?f x" by (rule imageE)
  with assms(2,3) show ?thesis
    by (cases "entry_id x = i \<and> entry_user x = u") auto
qed

lemma PUT_accepts:
  assumes auth: "session_email s = Some u"
    and owned: "\<exists>e \<in> set (Entry_table c). entry_id e = i \<and> entry_user e = u"
    and fine: "\<forall>q c. \<not> rejects q c"
  shows "\<exists>c'. PUT rejects s i (Some b) c = (\<lparr>status = 200, body = Message ''Updated''\<rparr>, c')"
proof -
  let ?upd = "UPDATE_Entry (body_text b) i u"
  let ?c1 = "apply_statement ?upd (c\<lparr>statements := statements c @ [?upd]\<rparr>)"
  let ?del = "DELETE_EntryCompetency i"
  let ?c2 = "apply_statement ?del (?c1\<lparr>statements := statements ?c1 @ [?del]\<rparr>)"
  from owned have "filter (\<lambda>e. entry_id e = i \<and> entry_user e = u) (Entry_table c) \<noteq> []"
    by (auto simp: filter_empty_conv)
  then have n: "affectedRows ?upd c \<noteq> 0" by simp
  have e1: "execute rejects ?upd c = (Inr (affectedRows ?upd c), ?c1)"
    using fine by (simp add: execute_def Let_def)
  have e2: "execute rejects ?del ?c1 = (Inr (affectedRows ?del ?c1), ?c2)"
    using fine by (simp add: execute_def Let_def)
  obtain c' where e3: "insert_competencies rejects i (body_competencyIDs b) ?c2 = (Inr (), c')"
    using insert_competencies_accepts [OF fine] by blast
  have "PUT rejects s i (Some b) c = (\<lparr>status = 200, body = Message ''Updated''\<rparr>, c')"
    unfolding PUT_def using n by (simp add: auth e1 e2 e3 del: affectedRows.simps apply_statement.simps)
  then show ?thesis ..
qed

text \<open>The same for a DELETE that answers 200.\<close>

lemma DELETE_done:
  assumes run: "DELETE rejects s i c = (r, c')"
    and success: "status r = 200"
  shows "\<exists>u. session_email s = Some u
       \<and> (\<exists>e \<in> set (Entry_table c). entry_id e = i \<and> entry_user e = u)
       \<and> Entry_table c' = filter (\<lambda>e. \<not> (entry_id e = i \<and> entry_user e = u)) (Entry_table c)
       \<and> EntryCompetency_table c' = filter (\<lambda>r. fst r \<noteq> i) (EntryCompetency_table c)
       \<and> statements c' = statements c @ [DELETE_EntryCompetency i, DELETE_Entry i u]"
proof -
  from run success obtain u where auth: "session_email s = Some u"
    by (auto simp: DELETE_def split: option.splits)
  let ?d1 = "DELETE_EntryCompetency i"
  let ?d2 = "DELETE_Entry i u"
  from run success auth obtain m c1 where e1: "execute rejects ?d1 c = (Inr m, c1)"
    by (auto simp: DELETE_def split: prod.splits sum.splits if_splits)
  from run success auth e1 obtain n where e2: "execute rejects ?d2 c1 = (Inr n, c')" and n: "n \<noteq> 0"
    by (auto simp: DELETE_def split: prod.splits sum.splits if_splits)
  from e1 have c1: "c1 = apply_statement ?d1 (c\<lparr>statements := statements c @ [?d1]\<rparr>)"
    by (simp add: execute_accepted)
  from e2 have c': "c' = apply_statement ?d2 (c1\<lparr>statements := statements c1 @ [?d2]\<rparr>)"
    and n_def: "n = affectedRows ?d2 c1"
    by (simp_all add: execute_accepted)
  from n n_def have "filter (\<lambda>e. entry_id e = i \<and> entry_user e = u) (Entry_table c) \<noteq> []"
    by (auto simp: c1)
  then have owned: "\<exists>e \<in> set (Entry_table c). entry_id e = i \<and> entry_user e = u"
    by (simp add: filter_empty_conv)
  have "Entry_table c' = filter (\<lambda>e. \<not> (entry_id e = i \<and> entry_user e = u)) (Entry_table c)"
    and "EntryCompetency_table c' = filter (\<lambda>r. fst r \<noteq> i) (EntryCompetency_table c)"
    and "statements c' = statements c @ [?d1, ?d2]"
    by (simp_all add: c' c1)
  with auth owned show ?thesis by blast
qed

lemma DELETE_accepts:
  assumes auth: "session_email s = Some u"
    and owned: "\<exists>e \<in> set (Entry_table c). entry_id e = i \<and> entry_user e = u"
    and fine: "\<forall>q c. \<not> rejects q c"
  shows "status (fst (DELETE rejects s i c)) = 200"
proof -
  from owned have "filter (\<lambda>e. entry_id e = i \<and> entry_user e = u) (Entry_table c) \<noteq> []"
    by (auto simp: filter_empty_conv)
  then show ?thesis
    using fine by (simp add: DELETE_def auth execute_def Let_def)
qed

lemma GET_ids:
  "row \<in> set (GET v c) \<Longrightarrow> \<exists>e \<in> set (Entry_table c). entry_user e = v \<and> row_id row = entry_id e"
  by (auto simp: GET_def)

lemma session_email_None_iff:
  "session_email s = None \<longleftrightarrow>
     s = None
     \<or> (\<exists>se. s = Some se \<and> session_user se = None)
     \<or> (\<exists>se u. s = Some se \<and> session_user se = Some u \<and> (email u = None \<or> email u = Some []))"
  by (auto simp: session_email_def split: option.splits)

lemma trim_empty_iff: "trim s = [] \<longleftrightarrow> (\<forall>ch \<in> set s. is_whitespace ch)"
proof
  assume t: "trim s = []"
  show "\<forall>ch \<in> set s. is_whitespace ch"
  proof (rule ccontr)
    assume "\<not> (\<forall>ch \<in> set s. is_whitespace ch)"
    then have ne: "dropWhile is_whitespace s \<noteq> []"
      by (simp add: dropWhile_eq_Nil_conv)
    then have "\<not> is_whitespace (hd (dropWhile is_whitespace s))"
      by (rule hd_dropWhile)
    moreover have "hd (dropWhile is_whitespace s) \<in> set (rev (dropWhile is_whitespace s))"
      using ne by simp
    moreover from t have "\<forall>ch \<in> set (rev (dropWhile is_whitespace s)). is_whitespace ch"
      by (simp add: trim_def dropWhile_eq_Nil_conv)
    ultimately show False by blast
  qed
next
  assume "\<forall>ch \<in> set s. is_whitespace ch"
  then have d: "dropWhile is_whitespace s = []"
    by (simp add: dropWhile_eq_Nil_conv)
  show "trim s = []"
    unfolding trim_def d by simp
qed

text \<open>
  The DELETE handler removes the association rows before the ownership-filtered statement
  runs: a caller who does not own entry 7 is answered 404, and the association rows of
  entry 7 are gone all the same.
\<close>

lemma DELETE_other_owner_strips_associations:
  "DELETE never_rejects (session_of bob) 7 example_store
     = (\<lparr>status = 404, body = Error ''Not found''\<rparr>,
        example_store\<lparr>EntryCompetency_table := [(8, 5)],
                      statements := [DELETE_EntryCompetency 7, DELETE_Entry 7 bob]\<rparr>)"
  by (simp add: DELETE_def session_email_def session_of_def ann_def bob_def example_store_def
      execute_def never_rejects_def)

text \<open>With text in the input and no entry being edited, \<open>handleSave\<close> does send a POST.\<close>

lemma handleSave_sends_POST:
  "handleSave (\<lambda>req. None) (\<lambda>d. d) (example_widget\<lparr>input := [0x68, 0x69]\<rparr>)
     = (example_widget\<lparr>input := [0x68, 0x69]\<rparr>, [Fetch_POST [0x68, 0x69] [Some 1, Some 3]], [])"
  by (simp add: handleSave_def example_widget_def trim_def is_whitespace_def)

section \<open>The entry API\<close>

text \<open>
  Claim C1. A PUT on \<open>/api/entry/{id}\<close> with body \<open>{text, competencyIDs}\<close> that answers
  200 was sent by a caller who owns the entry; afterwards the text of the stored entry is
  the new text, and the association rows of the entry are exactly one row per submitted id,
  in the order submitted, so that their set of competency ids is the submitted set. The
  handler ran the UPDATE, then the deletion of all association rows of the entry, then one
  INSERT per submitted id, whatever the rows were before; with \<open>competencyIDs: []\<close> no
  association row of the entry is left. Rows of other entries are untouched.
\<close>

theorem PUT_replaces_associations:
  assumes run: "PUT rejects s entryId (Some b) c = (r, c')"
    and success: "status r = 200"
  shows "\<exists>userEmail. session_email s = Some userEmail
       \<and> (\<exists>e \<in> set (Entry_table c). entry_id e = entryId \<and> entry_user e = userEmail)
       \<and> length (Entry_table c') = length (Entry_table c)
       \<and> (\<forall>e \<in> set (Entry_table c').
             entry_id e = entryId \<and> entry_user e = userEmail \<longrightarrow> entry_text e = body_text b)
       \<and> (\<exists>e \<in> set (Entry_table c').
             entry_id e = entryId \<and> entry_user e = userEmail \<and> entry_text e = body_text b)
       \<and> filter (\<lambda>r. fst r = entryId) (EntryCompetency_table c')
            = map (Pair entryId) (body_competencyIDs b)
       \<and> {k. (entryId, k) \<in> set (EntryCompetency_table c')} = set (body_competencyIDs b)
       \<and> (body_competencyIDs b = [] \<longrightarrow>
             (\<forall>row \<in> set (EntryCompetency_table c'). fst row \<noteq> entryId))
       \<and> filter (\<lambda>r. fst r \<noteq> entryId) (EntryCompetency_table c')
            = filter (\<lambda>r. fst r \<noteq> entryId) (EntryCompetency_table c)
       \<and> statements c' = statements c
            @ [UPDATE_Entry (body_text b) entryId userEmail, DELETE_EntryCompetency entryId]
            @ map (INSERT_EntryCompetency entryId) (body_competencyIDs b)"
proof -
  from PUT_done [OF run success] obtain userEmail where
    auth: "session_email s = Some userEmail"
    and owned: "\<exists>e \<in> set (Entry_table c). entry_id e = entryId \<and> entry_user e = userEmail"
    and et: "Entry_table c'
      = map (\<lambda>e. if entry_id e = entryId \<and> entry_user e = userEmail
                  then e\<lparr>entry_text := body_text b\<rparr> else e) (Entry_table c)"
    and ec: "EntryCompetency_table c'
      = filter (\<lambda>r. fst r \<noteq> entryId) (EntryCompetency_table c)
        @ map (Pair entryId) (body_competencyIDs b)"
    and st: "statements c' = statements c
        @ [UPDATE_Entry (body_text b) entryId userEmail, DELETE_EntryCompetency entryId]
        @ map (INSERT_EntryCompetency entryId) (body_competencyIDs b)"
    by blast
  have len: "length (Entry_table c') = length (Entry_table c)"
    by (simp add: et)
  have all_new: "\<forall>e \<in> set (Entry_table c').
      entry_id e = entryId \<and> entry_user e = userEmail \<longrightarrow> entry_text e = body_text b"
    unfolding et using updated_rows_text by blast
  from owned obtain e0 where "e0 \<in> set (Entry_table c)" "entry_id e0 = entryId"
      "entry_user e0 = userEmail"
    by blast
  then have some_new: "\<exists>e \<in> set (Entry_table c').
      entry_id e = entryId \<and> entry_user e = userEmail \<and> entry_text e = body_text b"
    unfolding et by (rule updated_row_present)
  have f1: "filter (\<lambda>r. fst r = entryId) (EntryCompetency_table c')
      = map (Pair entryId) (body_competencyIDs b)"
    by (simp add: ec filter_map o_def)
  have f2: "{k. (entryId, k) \<in> set (EntryCompetency_table c')} = set (body_competencyIDs b)"
    by (auto simp: ec)
  have f3: "body_competencyIDs b = [] \<longrightarrow>
      (\<forall>row \<in> set (EntryCompetency_table c'). fst row \<noteq> entryId)"
    by (auto simp: ec)
  have f4: "filter (\<lambda>r. fst r \<noteq> entryId) (EntryCompetency_table c')
      = filter (\<lambda>r. fst r \<noteq> entryId) (EntryCompetency_table c)"
    by (simp add: ec filter_map o_def)
  show ?thesis
    using auth owned len all_new some_new f1 f2 f3 f4 st by blast
qed

theorem PUT_replaces_associations_witness:
  "PUT never_rejects (session_of ann) 7
       (Some \<lparr>body_text = [0x6F, 0x6B], body_competencyIDs = []\<rparr>) example_store
     = (\<lparr>status = 200, body = Message ''Updated''\<rparr>,
        \<lparr>Entry_table =
           [\<lparr>entry_id = 7, entry_text = [0x6F, 0x6B], entry_createdAt = [], entry_user = ann\<rparr>,
            \<lparr>entry_id = 8, entry_text = [0x79, 0x6F], entry_createdAt = [], entry_user = bob\<rparr>],
         EntryCompetency_table = [(8, 5)],
         statements = [UPDATE_Entry [0x6F, 0x6B] 7 ann, DELETE_EntryCompetency 7]\<rparr>)
   \<and> {k. (7 :: int, k) \<in> set [(8 :: int, 5 :: int)]} = set ([] :: int list)
   \<and> PUT never_rejects (session_of ann) 7
       (Some \<lparr>body_text = [0x6F, 0x6B], body_competencyIDs = [3, 1]\<rparr>) example_store
     = (\<lparr>status = 200, body = Message ''Updated''\<rparr>,
        \<lparr>Entry_table =
           [\<lparr>entry_id = 7, entry_text = [0x6F, 0x6B], entry_createdAt = [], entry_user = ann\<rparr>,
            \<lparr>entry_id = 8, entry_text = [0x79, 0x6F], entry_createdAt = [], entry_user = bob\<rparr>],
         EntryCompetency_table = [(8, 5), (7, 3), (7, 1)],
         statements = [UPDATE_Entry [0x6F, 0x6B] 7 ann, DELETE_EntryCompetency 7,
                       INSERT_EntryCompetency 7 3, INSERT_EntryCompetency 7 1]\<rparr>)
   \<and> {k. (7 :: int, k) \<in> set [(8 :: int, 5), (7, 3), (7, 1 :: int)]} = set [3, 1 :: int]"
proof -
  have run0: "PUT never_rejects (session_of ann) 7
       (Some \<lparr>body_text = [0x6F, 0x6B], body_competencyIDs = []\<rparr>) example_store
     = (\<lparr>status = 200, body = Message ''Updated''\<rparr>,
        \<lparr>Entry_table =
           [\<lparr>entry_id = 7, entry_text = [0x6F, 0x6B], entry_createdAt = [], entry_user = ann\<rparr>,
            \<lparr>entry_id = 8, entry_text = [0x79, 0x6F], entry_createdAt = [], entry_user = bob\<rparr>],
         EntryCompetency_table = [(8, 5)],
         statements = [UPDATE_Entry [0x6F, 0x6B] 7 ann, DELETE_EntryCompetency 7]\<rparr>)"
    by (simp add: PUT_def session_email_def session_of_def ann_def bob_def example_store_def
        execute_def never_rejects_def)
  have run2: "PUT never_rejects (session_of ann) 7
       (Some \<lparr>body_text = [0x6F, 0x6B], body_competencyIDs = [3, 1]\<rparr>) example_store
     = (\<lparr>status = 200, body = Message ''Updated''\<rparr>,
        \<lparr>Entry_table =
           [\<lparr>entry_id = 7, entry_text = [0x6F, 0x6B], entry_createdAt = [], entry_user = ann\<rparr>,
            \<lparr>entry_id = 8, entry_text = [0x79, 0x6F], entry_createdAt = [], entry_user = bob\<rparr>],
         EntryCompetency_table = [(8, 5), (7, 3), (7, 1)],
         statements = [UPDATE_Entry [0x6F, 0x6B] 7 ann, DELETE_EntryCompetency 7,
                       INSERT_EntryCompetency 7 3, INSERT_EntryCompetency 7 1]\<rparr>)"
    by (simp add: PUT_def session_email_def session_of_def ann_def bob_def example_store_def
        execute_def never_rejects_def)
  have ok: "status \<lparr>status = 200, body = Message ''Updated''\<rparr> = 200"
    by simp
  from PUT_replaces_associations [OF run0 ok] PUT_replaces_associations [OF run2 ok]
  show ?thesis
    using run0 run2 by simp
qed

text \<open>
  Claim C2. Let the caller be authenticated and own no \<open>Entry\<close> row with the id of the
  request (the id exists under another owner, as in the witness, or it is absent: the
  handlers do not tell the two apart). When nothing in the \<open>try\<close> block throws, the
  answer is 404 with \<open>Not found\<close>: for DELETE, when the database refuses neither of its
  two statements; for PUT, when the body is bound to \<open>{text, competencyIDs}\<close> and the
  database does not refuse the UPDATE. When something throws (the unexpected failure of
  the spec, sections 6 and 7) the answer is 500. In no case is the status 200 or 403.
\<close>

theorem other_owner_not_found:
  assumes auth: "session_email s = Some u"
    and other: "\<forall>e \<in> set (Entry_table c). entry_id e = i \<longrightarrow> entry_user e \<noteq> u"
  shows "(\<not> rejects (DELETE_EntryCompetency i) c
          \<and> \<not> rejects (DELETE_Entry i u) (snd (execute rejects (DELETE_EntryCompetency i) c))
        \<longrightarrow> fst (DELETE rejects s i c) = \<lparr>status = 404, body = Error ''Not found''\<rparr>)
       \<and> (rejects (DELETE_EntryCompetency i) c
          \<or> rejects (DELETE_Entry i u) (snd (execute rejects (DELETE_EntryCompetency i) c))
        \<longrightarrow> fst (DELETE rejects s i c) = \<lparr>status = 500, body = Error ''Failed''\<rparr>)
       \<and> (\<forall>b. req_json = Some b \<and> \<not> rejects (UPDATE_Entry (body_text b) i u) c
        \<longrightarrow> fst (PUT rejects s i req_json c) = \<lparr>status = 404, body = Error ''Not found''\<rparr>)
       \<and> (req_json = None \<or> (\<exists>b. req_json = Some b \<and> rejects (UPDATE_Entry (body_text b) i u) c)
        \<longrightarrow> fst (PUT rejects s i req_json c) = \<lparr>status = 500, body = Error ''Failed''\<rparr>)
       \<and> status (fst (DELETE rejects s i c)) \<noteq> 200 \<and> status (fst (DELETE rejects s i c)) \<noteq> 403
       \<and> status (fst (PUT rejects s i req_json c)) \<noteq> 200
       \<and> status (fst (PUT rejects s i req_json c)) \<noteq> 403"
proof -
  from other have none: "filter (\<lambda>e. entry_id e = i \<and> entry_user e = u) (Entry_table c) = []"
    by (auto simp: filter_empty_conv)
  have del: "fst (DELETE rejects s i c) =
      (if rejects (DELETE_EntryCompetency i) c
          \<or> rejects (DELETE_Entry i u) (snd (execute rejects (DELETE_EntryCompetency i) c))
       then \<lparr>status = 500, body = Error ''Failed''\<rparr>
       else \<lparr>status = 404, body = Error ''Not found''\<rparr>)"
    by (simp add: DELETE_def auth execute_def Let_def none)
  have put: "fst (PUT rejects s i req_json c) =
      (case req_json of
         None \<Rightarrow> \<lparr>status = 500, body = Error ''Failed''\<rparr>
       | Some b \<Rightarrow>
           if rejects (UPDATE_Entry (body_text b) i u) c
           then \<lparr>status = 500, body = Error ''Failed''\<rparr>
           else \<lparr>status = 404, body = Error ''Not found''\<rparr>)"
    by (simp add: PUT_def auth execute_def Let_def none split: option.splits)
  show ?thesis
    unfolding del put by (auto split: option.splits)
qed

theorem other_owner_not_found_witness:
  "session_email (session_of bob) = Some bob
   \<and> Entry_table example_store =
       [\<lparr>entry_id = 7, entry_text = [0x68, 0x69], entry_createdAt = [], entry_user = ann\<rparr>,
        \<lparr>entry_id = 8, entry_text = [0x79, 0x6F], entry_createdAt = [], entry_user = bob\<rparr>]
   \<and> ann \<noteq> bob
   \<and> fst (DELETE never_rejects (session_of bob) 7 example_store)
       = \<lparr>status = 404, body = Error ''Not found''\<rparr>
   \<and> fst (PUT never_rejects (session_of bob) 7
            (Some \<lparr>body_text = [0x6F, 0x6B], body_competencyIDs = [3]\<rparr>) example_store)
       = \<lparr>status = 404, body = Error ''Not found''\<rparr>"
proof -
  have auth: "session_email (session_of bob) = Some bob"
    by (simp add: session_email_def session_of_def bob_def)
  have other: "\<forall>e \<in> set (Entry_table example_store). entry_id e = 7 \<longrightarrow> entry_user e \<noteq> bob"
    by (simp add: example_store_def ann_def bob_def)
  have rows: "Entry_table example_store =
       [\<lparr>entry_id = 7, entry_text = [0x68, 0x69], entry_createdAt = [], entry_user = ann\<rparr>,
        \<lparr>entry_id = 8, entry_text = [0x79, 0x6F], entry_createdAt = [], entry_user = bob\<rparr>]"
    by (simp add: example_store_def)
  have differ: "ann \<noteq> bob"
    by (simp add: ann_def bob_def)
  from other_owner_not_found [OF auth other, of never_rejects
      "Some \<lparr>body_text = [0x6F, 0x6B], body_competencyIDs = [3]\<rparr>"]
  show ?thesis
    using auth rows differ by (simp add: never_rejects_def)
qed

text \<open>
  The failure paths on the sample store: \<open>b@x\<close> does not own entry 7 of \<open>a@x\<close>; the PUT
  of \<open>b@x\<close> whose body cannot be bound is answered 500 by the \<open>catch\<close> block, and so is
  the DELETE of \<open>b@x\<close> when the database refuses the statement.
\<close>

lemma other_owner_failure_500:
  "session_email (session_of bob) = Some bob
   \<and> Entry_table example_store =
       [\<lparr>entry_id = 7, entry_text = [0x68, 0x69], entry_createdAt = [], entry_user = ann\<rparr>,
        \<lparr>entry_id = 8, entry_text = [0x79, 0x6F], entry_createdAt = [], entry_user = bob\<rparr>]
   \<and> ann \<noteq> bob
   \<and> status (fst (PUT never_rejects (session_of bob) 7 None example_store)) = 500
   \<and> status (fst (DELETE always_rejects (session_of bob) 7 example_store)) = 500"
  by (simp add: session_email_def session_of_def bob_def ann_def example_store_def
      PUT_def DELETE_def execute_def always_rejects_def)

text \<open>
  Claim C3. A POST, PUT or DELETE whose session is missing, has no user, or has a user
  without an email (or with the empty one) is answered 401, and the connection is returned
  as it was: no table has changed and no statement was handed to the database.
\<close>

theorem unauthenticated_401:
  assumes "s = None
     \<or> (\<exists>se. s = Some se \<and> session_user se = None)
     \<or> (\<exists>se u. s = Some se \<and> session_user se = Some u \<and> (email u = None \<or> email u = Some []))"
  shows "POST rejects insertId now s req_json c = (\<lparr>status = 401, body = Error ''Not Authenticated''\<rparr>, c)
       \<and> PUT rejects s entryId req_json c = (\<lparr>status = 401, body = Error ''Not Authenticated''\<rparr>, c)
       \<and> DELETE rejects s entryId c = (\<lparr>status = 401, body = Error ''Not Authenticated''\<rparr>, c)
       \<and> statements (snd (POST rejects insertId now s req_json c)) = statements c
       \<and> statements (snd (PUT rejects s entryId req_json c)) = statements c
       \<and> statements (snd (DELETE rejects s entryId c)) = statements c"
proof -
  from assms have "session_email s = None"
    by (simp only: session_email_None_iff)
  then show ?thesis
    by (simp add: POST_def PUT_def DELETE_def)
qed

theorem unauthenticated_401_witness:
  "POST never_rejects 9 [] None (Some \<lparr>body_text = [0x6F, 0x6B], body_competencyIDs = [3]\<rparr>)
       example_store
     = (\<lparr>status = 401, body = Error ''Not Authenticated''\<rparr>, example_store)
   \<and> PUT never_rejects None 7 (Some \<lparr>body_text = [0x6F, 0x6B], body_competencyIDs = [3]\<rparr>)
       example_store
     = (\<lparr>status = 401, body = Error ''Not Authenticated''\<rparr>, example_store)
   \<and> DELETE never_rejects (Some \<lparr>session_user = Some \<lparr>email = None\<rparr>\<rparr>) 7 example_store
     = (\<lparr>status = 401, body = Error ''Not Authenticated''\<rparr>, example_store)"
  using unauthenticated_401 [of None never_rejects 9 "[]"
      "Some \<lparr>body_text = [0x6F, 0x6B], body_competencyIDs = [3]\<rparr>" example_store 7]
    unauthenticated_401 [of "Some \<lparr>session_user = Some \<lparr>email = None\<rparr>\<rparr>" never_rejects 9 "[]"
      None example_store 7]
  by simp

text \<open>
  Claim C4. A DELETE on \<open>/api/entry/{id}\<close> that answers 200 was sent by a caller who owns
  the entry; the handler ran the deletion of the association rows of the entry first and
  the deletion of the \<open>Entry\<close> row filtered by id and owner second. Afterwards no
  association row of the entry is left, no \<open>Entry\<close> row with this id and owner is left,
  the caller's list of entries does not contain the id, and, ids being unique, nobody's list
  does. The owner's DELETE does answer 200 when the database refuses nothing. When the
  deletion of the \<open>Entry\<close> row reports zero affected rows, the answer is 404.
\<close>

theorem DELETE_removes_entry:
  "(\<forall>r c'. DELETE rejects s i c = (r, c') \<and> status r = 200 \<longrightarrow>
      (\<exists>u. session_email s = Some u
         \<and> (\<exists>e \<in> set (Entry_table c). entry_id e = i \<and> entry_user e = u)
         \<and> statements c' = statements c @ [DELETE_EntryCompetency i, DELETE_Entry i u]
         \<and> EntryCompetency_table c' = filter (\<lambda>r. fst r \<noteq> i) (EntryCompetency_table c)
         \<and> (\<forall>row \<in> set (EntryCompetency_table c'). fst row \<noteq> i)
         \<and> Entry_table c' = filter (\<lambda>e. \<not> (entry_id e = i \<and> entry_user e = u)) (Entry_table c)
         \<and> (\<forall>e \<in> set (Entry_table c'). \<not> (entry_id e = i \<and> entry_user e = u))
         \<and> (\<forall>row \<in> set (GET u c'). row_id row \<noteq> i)
         \<and> (distinct (map entry_id (Entry_table c)) \<longrightarrow>
               (\<forall>v. \<forall>row \<in> set (GET v c'). row_id row \<noteq> i))))
   \<and> (\<forall>u. session_email s = Some u
         \<and> (\<exists>e \<in> set (Entry_table c). entry_id e = i \<and> entry_user e = u)
         \<and> (\<forall>q c. \<not> rejects q c)
       \<longrightarrow> status (fst (DELETE rejects s i c)) = 200)
   \<and> (\<forall>u n c1 c2. session_email s = Some u
         \<and> execute rejects (DELETE_EntryCompetency i) c = (Inr n, c1)
         \<and> execute rejects (DELETE_Entry i u) c1 = (Inr 0, c2)
       \<longrightarrow> DELETE rejects s i c = (\<lparr>status = 404, body = Error ''Not found''\<rparr>, c2))"
proof (intro conjI allI impI)
  fix r c'
  assume h: "DELETE rejects s i c = (r, c') \<and> status r = 200"
  then obtain u where auth: "session_email s = Some u"
    and owned: "\<exists>e \<in> set (Entry_table c). entry_id e = i \<and> entry_user e = u"
    and et: "Entry_table c' = filter (\<lambda>e. \<not> (entry_id e = i \<and> entry_user e = u)) (Entry_table c)"
    and ec: "EntryCompetency_table c' = filter (\<lambda>r. fst r \<noteq> i) (EntryCompetency_table c)"
    and st: "statements c' = statements c @ [DELETE_EntryCompetency i, DELETE_Entry i u]"
    using DELETE_done [of rejects s i c r c'] by blast
  have no_assoc: "\<forall>row \<in> set (EntryCompetency_table c'). fst row \<noteq> i"
    by (simp add: ec)
  have no_entry: "\<forall>e \<in> set (Entry_table c'). \<not> (entry_id e = i \<and> entry_user e = u)"
    by (simp add: et)
  have own_list: "\<forall>row \<in> set (GET u c'). row_id row \<noteq> i"
  proof
    fix row assume "row \<in> set (GET u c')"
    then obtain e where "e \<in> set (Entry_table c')" "entry_user e = u" "row_id row = entry_id e"
      using GET_ids by blast
    with no_entry show "row_id row \<noteq> i" by auto
  qed
  have any_list: "distinct (map entry_id (Entry_table c)) \<longrightarrow>
      (\<forall>v. \<forall>row \<in> set (GET v c'). row_id row \<noteq> i)"
  proof (intro impI allI ballI)
    fix v row
    assume d: "distinct (map entry_id (Entry_table c))" and "row \<in> set (GET v c')"
    then obtain e where e: "e \<in> set (Entry_table c')" "row_id row = entry_id e"
      using GET_ids by blast
    from owned obtain e0 where e0: "e0 \<in> set (Entry_table c)" "entry_id e0 = i" "entry_user e0 = u"
      by blast
    show "row_id row \<noteq> i"
    proof
      assume "row_id row = i"
      with e have "entry_id e = entry_id e0" by (simp add: e0)
      moreover from e(1) have "e \<in> set (Entry_table c)" by (simp add: et)
      moreover from d have "inj_on entry_id (set (Entry_table c))" by (simp add: distinct_map)
      ultimately have "e = e0" using e0(1) by (auto dest: inj_onD)
      with e(1) e0 no_entry show False by auto
    qed
  qed
  from auth owned st ec no_assoc et no_entry own_list any_list
  show "\<exists>u. session_email s = Some u
         \<and> (\<exists>e \<in> set (Entry_table c). entry_id e = i \<and> entry_user e = u)
         \<and> statements c' = statements c @ [DELETE_EntryCompetency i, DELETE_Entry i u]
         \<and> EntryCompetency_table c' = filter (\<lambda>r. fst r \<noteq> i) (EntryCompetency_table c)
         \<and> (\<forall>row \<in> set (EntryCompetency_table c'). fst row \<noteq> i)
         \<and> Entry_table c' = filter (\<lambda>e. \<not> (entry_id e = i \<and> entry_user e = u)) (Entry_table c)
         \<and> (\<forall>e \<in> set (Entry_table c'). \<not> (entry_id e = i \<and> entry_user e = u))
         \<and> (\<forall>row \<in> set (GET u c'). row_id row \<noteq> i)
         \<and> (distinct (map entry_id (Entry_table c)) \<longrightarrow>
               (\<forall>v. \<forall>row \<in> set (GET v c'). row_id row \<noteq> i))"
    by blast
next
  fix u
  assume "session_email s = Some u
         \<and> (\<exists>e \<in> set (Entry_table c). entry_id e = i \<and> entry_user e = u)
         \<and> (\<forall>q c. \<not> rejects q c)"
  then show "status (fst (DELETE rejects s i c)) = 200"
    using DELETE_accepts [of s u c i rejects] by blast
next
  fix u n c1 c2
  assume "session_email s = Some u
         \<and> execute rejects (DELETE_EntryCompetency i) c = (Inr n, c1)
         \<and> execute rejects (DELETE_Entry i u) c1 = (Inr 0, c2)"
  then show "DELETE rejects s i c = (\<lparr>status = 404, body = Error ''Not found''\<rparr>, c2)"
    by (simp add: DELETE_def)
qed

theorem DELETE_removes_entry_witness:
  "DELETE never_rejects (session_of ann) 7 example_store
     = (\<lparr>status = 200, body = Message ''Deleted''\<rparr>,
        \<lparr>Entry_table =
           [\<lparr>entry_id = 8, entry_text = [0x79, 0x6F], entry_createdAt = [], entry_user = bob\<rparr>],
         EntryCompetency_table = [(8, 5)],
         statements = [DELETE_EntryCompetency 7, DELETE_Entry 7 ann]\<rparr>)
   \<and> GET ann (snd (DELETE never_rejects (session_of ann) 7 example_store)) = []
   \<and> DELETE never_rejects (session_of ann) 9 example_store
     = (\<lparr>status = 404, body = Error ''Not found''\<rparr>,
        example_store\<lparr>statements := [DELETE_EntryCompetency 9, DELETE_Entry 9 ann]\<rparr>)"
proof -
  have run: "DELETE never_rejects (session_of ann) 7 example_store
     = (\<lparr>status = 200, body = Message ''Deleted''\<rparr>,
        \<lparr>Entry_table =
           [\<lparr>entry_id = 8, entry_text = [0x79, 0x6F], entry_createdAt = [], entry_user = bob\<rparr>],
         EntryCompetency_table = [(8, 5)],
         statements = [DELETE_EntryCompetency 7, DELETE_Entry 7 ann]\<rparr>)"
    by (simp add: DELETE_def session_email_def session_of_def ann_def bob_def example_store_def
        execute_def never_rejects_def)
  have auth: "session_email (session_of ann) = Some ann"
    by (simp add: session_email_def session_of_def ann_def)
  have e1: "execute never_rejects (DELETE_EntryCompetency 9) example_store
      = (Inr 0, example_store\<lparr>statements := [DELETE_EntryCompetency 9]\<rparr>)"
    by (simp add: execute_def never_rejects_def example_store_def)
  have e2: "execute never_rejects (DELETE_Entry 9 ann)
        (example_store\<lparr>statements := [DELETE_EntryCompetency 9]\<rparr>)
      = (Inr 0, example_store\<lparr>statements := [DELETE_EntryCompetency 9, DELETE_Entry 9 ann]\<rparr>)"
    by (simp add: execute_def never_rejects_def example_store_def)
  note del = DELETE_removes_entry [of never_rejects "session_of ann" _ example_store]
  have "GET ann (snd (DELETE never_rejects (session_of ann) 7 example_store)) = []"
    unfolding run by (simp add: GET_def bob_def ann_def)
  moreover from del [of 9, THEN conjunct2, THEN conjunct2, rule_format, OF conjI, OF auth conjI, OF e1 e2]
  have "DELETE never_rejects (session_of ann) 9 example_store
     = (\<lparr>status = 404, body = Error ''Not found''\<rparr>,
        example_store\<lparr>statements := [DELETE_EntryCompetency 9, DELETE_Entry 9 ann]\<rparr>)" .
  ultimately show ?thesis
    using run del [of 7, THEN conjunct1, rule_format, OF conjI, OF run] by simp
qed

section \<open>The presentation layer\<close>

text \<open>
  Claim C5. When the list route answers with rows, the thoughts that \<open>loadThoughts\<close>
  derives, in the widget and on the page, correspond to the rows one by one, and the
  competencies of each thought contain no \<open>null\<close>: a \<open>null\<close> or absent field gives the
  empty list, and an array gives its elements other than \<open>null\<close>, in order.
\<close>

theorem loadThoughts_no_null:
  assumes "list_ok res"
  shows "list_all2
           (\<lambda>row t. thought_id t = row_id row
              \<and> None \<notin> set (thought_competencies t)
              \<and> (row_competencies row = None \<longrightarrow> thought_competencies t = [])
              \<and> (\<forall>cs. row_competencies row = Some cs \<longrightarrow>
                     thought_competencies t = filter (\<lambda>x. x \<noteq> None) cs))
           (list_json res) (thoughts (loadThoughts toLocaleString res st))
       \<and> list_all2
           (\<lambda>row t. thought_id t = row_id row
              \<and> None \<notin> set (thought_competencies t)
              \<and> (row_competencies row = None \<longrightarrow> thought_competencies t = [])
              \<and> (\<forall>cs. row_competencies row = Some cs \<longrightarrow>
                     thought_competencies t = filter (\<lambda>x. x \<noteq> None) cs))
           (list_json res) (page_thoughts (page_loadThoughts toLocaleString res pst))"
  using assms
  by (simp add: loadThoughts_def page_loadThoughts_def list_all2_map2 list_all2_same
      split: option.splits)

theorem loadThoughts_no_null_witness:
  "list_ok example_rows
   \<and> map thought_competencies (thoughts (loadThoughts (\<lambda>d. d) example_rows example_widget))
       = [[Some 1, Some 3], []]
   \<and> map thought_competencies
         (page_thoughts (page_loadThoughts (\<lambda>d. d) example_rows
            \<lparr>page_thoughts = [], page_competencies = []\<rparr>))
       = [[Some 1, Some 3], []]"
proof -
  have ok: "list_ok example_rows"
    by (simp add: example_rows_def)
  from loadThoughts_no_null [OF ok, of "\<lambda>d. d" example_widget
      "\<lparr>page_thoughts = [], page_competencies = []\<rparr>"]
  show ?thesis
    using ok by (simp add: example_rows_def loadThoughts_def page_loadThoughts_def)
qed

text \<open>
  Claim C6. The trimmed input is empty exactly when the input is empty or consists of white
  space only; then \<open>handleSave\<close> issues no request, opens no alert and returns the state
  of the component as it was. The API does not repeat the check: a PUT of the owner with
  any text \<open>t\<close>, white space included, is answered 200 and stores \<open>t\<close> when the database
  refuses nothing.
\<close>

theorem handleSave_blank_input:
  "(trim (input st) = [] \<longleftrightarrow> (\<forall>ch \<in> set (input st). is_whitespace ch))
   \<and> (trim (input st) = [] \<longrightarrow> handleSave fetch toLocaleString st = (st, [], []))
   \<and> (session_email s = Some u
        \<and> (\<exists>e \<in> set (Entry_table c). entry_id e = i \<and> entry_user e = u)
        \<and> (\<forall>q c. \<not> rejects q c)
      \<longrightarrow> status (fst (PUT rejects s i (Some \<lparr>body_text = t, body_competencyIDs = ks\<rparr>) c)) = 200
         \<and> (\<exists>e \<in> set (Entry_table
                          (snd (PUT rejects s i (Some \<lparr>body_text = t, body_competencyIDs = ks\<rparr>) c))).
               entry_id e = i \<and> entry_user e = u \<and> entry_text e = t))"
proof (intro conjI impI)
  show "trim (input st) = [] \<longleftrightarrow> (\<forall>ch \<in> set (input st). is_whitespace ch)"
    by (rule trim_empty_iff)
next
  assume "trim (input st) = []"
  then show "handleSave fetch toLocaleString st = (st, [], [])"
    by (simp add: handleSave_def)
next
  assume h: "session_email s = Some u
        \<and> (\<exists>e \<in> set (Entry_table c). entry_id e = i \<and> entry_user e = u)
        \<and> (\<forall>q c. \<not> rejects q c)"
  let ?b = "\<lparr>body_text = t, body_competencyIDs = ks\<rparr>"
  from h obtain c' where run: "PUT rejects s i (Some ?b) c = (\<lparr>status = 200, body = Message ''Updated''\<rparr>, c')"
    using PUT_accepts [of s u c i rejects ?b] by blast
  show "status (fst (PUT rejects s i (Some ?b) c)) = 200"
    by (simp add: run)
  from PUT_done [OF run] h have "Entry_table c'
      = map (\<lambda>e. if entry_id e = i \<and> entry_user e = u
                  then e\<lparr>entry_text := t\<rparr> else e) (Entry_table c)"
    by auto
  moreover from h obtain e0 where "e0 \<in> set (Entry_table c)" "entry_id e0 = i" "entry_user e0 = u"
    by blast
  then have "\<exists>e \<in> set (map (\<lambda>e. if entry_id e = i \<and> entry_user e = u
                              then e\<lparr>entry_text := t\<rparr> else e) (Entry_table c)).
            entry_id e = i \<and> entry_user e = u \<and> entry_text e = t"
    by (rule updated_row_present)
  ultimately show "\<exists>e \<in> set (Entry_table (snd (PUT rejects s i (Some ?b) c))).
               entry_id e = i \<and> entry_user e = u \<and> entry_text e = t"
    by (simp add: run)
qed

theorem handleSave_blank_input_witness:
  "trim (input example_widget) = []
   \<and> handleSave (\<lambda>req. None) (\<lambda>d. d) example_widget = (example_widget, [], [])
   \<and> trim [0x20, 0x20] = []
   \<and> status (fst (PUT never_rejects (session_of ann) 7
        (Some \<lparr>body_text = [0x20, 0x20], body_competencyIDs = []\<rparr>) example_store)) = 200"
proof -
  have blank: "trim (input example_widget) = []"
    by (simp add: trim_def example_widget_def is_whitespace_def)
  have blank2: "trim [0x20, 0x20] = []"
    by (simp add: trim_def is_whitespace_def)
  have auth: "session_email (session_of ann) = Some ann"
    by (simp add: session_email_def session_of_def ann_def)
  have owned: "\<exists>e \<in> set (Entry_table example_store). entry_id e = 7 \<and> entry_user e = ann"
    by (simp add: example_store_def)
  have fine: "\<forall>q c. \<not> never_rejects q c"
    by (simp add: never_rejects_def)
  from handleSave_blank_input [of example_widget "\<lambda>req. None" "\<lambda>d. d" "session_of ann" ann
      example_store 7 never_rejects "[0x20, 0x20]" "[]"]
  show ?thesis
    using blank blank2 auth owned fine by blast
qed

text \<open>
  Claim C7. With no thought the widget shows the placeholder paragraph. Otherwise it shows
  one card per thought for the first five thoughts of the list (all of them when there are
  fewer), in the order of the list: the \<open>k\<close>-th card is the \<open>k\<close>-th thought.
\<close>

theorem DailyThought_render_first_five:
  "(thoughts st = [] \<longrightarrow> DailyThought_render st = Placeholder ''No thoughts yet. Start typing!'')
   \<and> (thoughts st \<noteq> [] \<longrightarrow>
        (\<exists>cards. DailyThought_render st = Cards cards
           \<and> cards = map (render_card (competencies st)) (take 5 (thoughts st))
           \<and> length cards = min 5 (length (thoughts st))
           \<and> length cards \<le> 5
           \<and> (\<forall>k < length cards.
                 card_key (cards ! k) = thought_id (thoughts st ! k)
                 \<and> card_text (cards ! k) = thought_text (thoughts st ! k)
                 \<and> card_time (cards ! k) = thought_time (thoughts st ! k))))"
  by (auto simp: DailyThought_render_def render_card_def)

theorem DailyThought_render_first_five_witness:
  "thoughts example_widget \<noteq> []
   \<and> map thought_id (thoughts example_widget) = [9, 4, 7, 1, 8, 3]
   \<and> (\<exists>cards. DailyThought_render example_widget = Cards cards
         \<and> map card_key cards = [9, 4, 7, 1, 8])
   \<and> DailyThought_render (example_widget\<lparr>thoughts := []\<rparr>)
       = Placeholder ''No thoughts yet. Start typing!''"
proof -
  have ne: "thoughts example_widget \<noteq> []"
    by (simp add: example_widget_def)
  have ids: "map thought_id (thoughts example_widget) = [9, 4, 7, 1, 8, 3]"
    by (simp add: example_widget_def blank_thought_def)
  have empty: "thoughts (example_widget\<lparr>thoughts := []\<rparr>) = []"
    by simp
  from DailyThought_render_first_five [of example_widget, THEN conjunct2, rule_format, OF ne]
  obtain cards where c: "DailyThought_render example_widget = Cards cards"
    and m: "cards = map (render_card (competencies example_widget)) (take 5 (thoughts example_widget))"
    by blast
  have k: "map card_key cards = [9, 4, 7, 1, 8]"
    unfolding m by (simp add: example_widget_def blank_thought_def render_card_def)
  have "\<exists>cards. DailyThought_render example_widget = Cards cards
         \<and> map card_key cards = [9, 4, 7, 1, 8]"
    using c k by (intro exI [of _ cards] conjI)
  moreover from DailyThought_render_first_five [of "example_widget\<lparr>thoughts := []\<rparr>",
      THEN conjunct1, rule_format, OF empty]
  have "DailyThought_render (example_widget\<lparr>thoughts := []\<rparr>)
       = Placeholder ''No thoughts yet. Start typing!''" .
  ultimately show ?thesis
    using ne ids by blast
qed

text \<open>
  Claim C8. On a duplicate-free \<open>selected\<close> list, \<open>toggleCompetency\<close> flips the membership of
  the given id: the id is filtered out when present and appended when absent, the result is
  duplicate-free again, every other element keeps its membership, and toggling twice gives a
  list with the same elements as the original one.
\<close>

theorem toggleCompetency_flips:
  assumes "distinct (selected st)"
  shows "(Some i \<in> set (selected st) \<longrightarrow>
            selected (toggleCompetency i st) = filter (\<lambda>c. c \<noteq> Some i) (selected st))
       \<and> (Some i \<notin> set (selected st) \<longrightarrow>
            selected (toggleCompetency i st) = selected st @ [Some i])
       \<and> (Some i \<in> set (selected (toggleCompetency i st)) \<longleftrightarrow> Some i \<notin> set (selected st))
       \<and> distinct (selected (toggleCompetency i st))
       \<and> (\<forall>c. c \<noteq> Some i \<longrightarrow>
            (c \<in> set (selected (toggleCompetency i st)) \<longleftrightarrow> c \<in> set (selected st)))
       \<and> set (selected (toggleCompetency i (toggleCompetency i st))) = set (selected st)"
  using assms by (auto simp: toggleCompetency_def Let_def)

theorem toggleCompetency_flips_witness:
  "distinct [Some 1, Some (3::int)]
   \<and> selected (toggleCompetency 3 \<lparr>input = [], thoughts = [], competencies = [],
        selected = [Some 1, Some 3], editingId = None\<rparr>) = [Some 1]
   \<and> selected (toggleCompetency 2 \<lparr>input = [], thoughts = [], competencies = [],
        selected = [Some 1, Some 3], editingId = None\<rparr>) = [Some 1, Some 3, Some 2]"
  using toggleCompetency_flips [of "\<lparr>input = [], thoughts = [], competencies = [],
        selected = [Some 1, Some 3], editingId = None\<rparr>" 3]
    toggleCompetency_flips [of "\<lparr>input = [], thoughts = [], competencies = [],
        selected = [Some 1, Some 3], editingId = None\<rparr>" 2]
  by simp

end
